theory Spec2Isabelle
  imports Main "HOL-Library.Sublist"
begin

section \<open>Data model\<close>

text \<open>
  The rendering pipeline of kots: \<^verbatim>\<open>WriteBase\<close> (package base) and
  \<^verbatim>\<open>WriteMidstream\<close> with \<^verbatim>\<open>mergeKustomization\<close> (package midstream,
  \<^verbatim>\<open>pkg/midstream/write.go\<close>).

  Go strings and byte slices are \<^typ>\<open>string\<close>. A Go \<^verbatim>\<open>error\<close> is a value of
  the datatype \<open>error\<close>: \<open>External\<close> is an error handed back by the standard
  library or by a collaborator, \<open>Wrap\<close> is \<^verbatim>\<open>errors.Wrap(err, msg)\<close> and
  \<open>Errorf\<close> is \<^verbatim>\<open>fmt.Errorf\<close> with the formatted message. A returned
  \<^verbatim>\<open>error\<close> is an \<open>error option\<close>, \<open>None\<close> being \<^verbatim>\<open>nil\<close>.
\<close>

type_synonym bytes = string

datatype error = External string | Wrap error string | Errorf string

text \<open>
  \<^verbatim>\<open>k8sdoc.Doc\<close>, the view of a manifest that \<^verbatim>\<open>obejctWithPullSecret\<close> builds:
  the nested structs \<^verbatim>\<open>Metadata\<close> and \<^verbatim>\<open>Spec.Template.Spec\<close> are flattened,
  an \<^verbatim>\<open>ImagePullSecret\<close> (a \<^verbatim>\<open>map[string]string\<close>) is an association list.
\<close>

record Doc =
  APIVersion :: string
  Kind :: string
  Metadata_Name :: string
  ImagePullSecrets :: "(string \<times> string) list list"

text \<open>\<^verbatim>\<open>corev1.Secret\<close>: only its presence matters to the code; it is kept as its name
  and its data.\<close>

datatype Secret = Secret string bytes

text \<open>The fields of the kustomize types \<^verbatim>\<open>Image\<close> and \<^verbatim>\<open>Kustomization\<close> that
  the code reads or writes. A \<^verbatim>\<open>PatchStrategicMerge\<close> is a string.\<close>

record Image =
  Name :: string
  NewName :: string
  NewTag :: string
  Digest :: string

type_synonym PatchStrategicMerge = string

record Kustomization =
  APIVersion :: string
  Kind :: string
  Resources :: "string list"
  PatchesStrategicMerge :: "PatchStrategicMerge list"
  Images :: "Image list"
  Bases :: "string list"

text \<open>The composer. \<^verbatim>\<open>m.Kustomization\<close> is a pointer that the methods mutate in
  place: the model returns the updated composer.\<close>

record Midstream =
  Kustomization :: Kustomization
  PullSecret :: "Secret option"
  DocForPatches :: "Doc list"

record BaseFile =
  Path :: string
  Content :: bytes

record Base =
  Files :: "BaseFile list"

text \<open>The two \<^verbatim>\<open>WriteOptions\<close> structs, of package base and of package midstream.\<close>

record base_WriteOptions =
  BaseDir :: string
  Overwrite :: bool
  ExcludeKotsKinds :: bool

record midstream_WriteOptions =
  MidstreamDir :: string
  BaseDir :: string

definition secretFilename :: string where
  "secretFilename = ''secret.yaml''"

definition patchesFilename :: string where
  "patchesFilename = ''pullsecrets.yaml''"


section \<open>Merging with the existing Kustomization\<close>

text \<open>Modelled from the spec: \<^verbatim>\<open>removeExistingImages\<close> is called by
  \<^verbatim>\<open>mergeKustomization\<close> (write.go, line 79) but its body is not among the sources.
  The spec (4.2, step 5) keeps "only those entries from the new computation whose name
  does not already appear in the existing list".\<close>

definition removeExistingImages :: "Image list \<Rightarrow> Image list \<Rightarrow> Image list" where
  "removeExistingImages newImages existingImages =
     filter (\<lambda>image. Name image \<notin> set (map Name existingImages)) newImages"

text \<open>Modelled from the spec: \<^verbatim>\<open>findNewPatches\<close> is called by
  \<^verbatim>\<open>mergeKustomization\<close> (write.go, line 82) but its body is not among the sources.
  The spec (4.2, step 5) keeps "only new entries not already present (string equality on
  the patch reference)".\<close>

definition findNewPatches ::
    "PatchStrategicMerge list \<Rightarrow> PatchStrategicMerge list \<Rightarrow> PatchStrategicMerge list" where
  "findNewPatches currentPatches existingPatches =
     filter (\<lambda>p. p \<notin> set existingPatches) currentPatches"

text \<open>Modelled from the spec: \<^verbatim>\<open>findNewStrings\<close> is called by
  \<^verbatim>\<open>mergeKustomization\<close> (write.go, line 85) but its body is not among the sources.
  The spec (4.2, step 5) keeps "only new entries not already present (string equality on
  path)".\<close>

definition findNewStrings :: "string list \<Rightarrow> string list \<Rightarrow> string list" where
  "findNewStrings currentStrings existingStrings =
     filter (\<lambda>s. s \<notin> set existingStrings) currentStrings"

text \<open>\<^verbatim>\<open>mergeKustomization\<close> (write.go, lines 74-87). \<open>None\<close> is the \<^verbatim>\<open>nil\<close>
  pointer. The image list is appended to \<^verbatim>\<open>m.Kustomization.Images\<close>, the patches
  and the resources to the lists of \<^verbatim>\<open>existing\<close>.\<close>

definition mergeKustomization :: "Midstream \<Rightarrow> Kustomization option \<Rightarrow> Midstream" where
  "mergeKustomization m existing =
     (case existing of
        None \<Rightarrow> m
      | Some ex \<Rightarrow>
          (let filteredImages = removeExistingImages (Images (Kustomization m)) (Images ex);
               k1 = (Kustomization m)\<lparr>Images := Images (Kustomization m) @ filteredImages\<rparr>;
               newPatches = findNewPatches (PatchesStrategicMerge k1) (PatchesStrategicMerge ex);
               k2 = k1\<lparr>PatchesStrategicMerge := PatchesStrategicMerge ex @ newPatches\<rparr>;
               newResources = findNewStrings (Resources k2) (Resources ex);
               k3 = k2\<lparr>Resources := Resources ex @ newResources\<rparr>
           in m\<lparr>Kustomization := k3\<rparr>))"


section \<open>The environment\<close>

text \<open>
  The file system, the path functions, the YAML encoders and the collaborators of
  \<^verbatim>\<open>k8sutil\<close> and of \<^verbatim>\<open>BaseFile\<close> are outside the two functions verified
  here. They are the fields of the record \<open>sys\<close>, so every theorem holds for any
  behaviour of them, failures included.

  The state the program threads is the list of the mutating calls it has issued so far,
  oldest first. The environment answers a call from the path and from that history (the
  initial content of the disk is part of the environment). A function of the model
  returns its result and the extended history; "no side effect" is: the history is
  returned as it was received. File modes are not modelled. \<open>target\<close> is the path
  a call acts on.
\<close>

datatype call =
    is_RemoveAll: RemoveAll (target: string)
  | is_MkdirAll: MkdirAll (target: string)
  | is_WriteFile: WriteFile (target: string) bytes
  | is_Create: Create (target: string)
  | is_Write: Write (target: string) bytes
  | is_Close: Close (target: string)
  | is_WriteKustomizationToFile: WriteKustomizationToFile Kustomization (target: string)

text \<open>The calls issued between the history \<open>h\<close> a function received and the history
  \<open>h'\<close> it returned.\<close>

definition issued :: "call list \<Rightarrow> call list \<Rightarrow> call list" where
  "issued h h' = drop (length h) h'"

record sys =
  os_Stat :: "string \<Rightarrow> call list \<Rightarrow> error option"
  os_IsNotExist :: "error \<Rightarrow> bool"
  os_RemoveAll :: "string \<Rightarrow> call list \<Rightarrow> error option"
  os_MkdirAll :: "string \<Rightarrow> call list \<Rightarrow> error option"
  ioutil_WriteFile :: "string \<Rightarrow> bytes \<Rightarrow> call list \<Rightarrow> error option"
  os_Create :: "string \<Rightarrow> call list \<Rightarrow> error option"
  File_Write :: "string \<Rightarrow> bytes \<Rightarrow> call list \<Rightarrow> error option"
  path_Join :: "string list \<Rightarrow> string"
  path_Split :: "string \<Rightarrow> string \<times> string"
  filepath_Join :: "string list \<Rightarrow> string"
  filepath_Rel :: "string \<Rightarrow> string \<Rightarrow> error + string"
  k8syaml_Marshal :: "Secret \<Rightarrow> error + bytes"
  yaml_Marshal :: "Doc \<Rightarrow> error + bytes"
  ReadKustomizationFromFile :: "string \<Rightarrow> call list \<Rightarrow> error + Kustomization"
  k8sutil_WriteKustomizationToFile :: "Kustomization \<Rightarrow> string \<Rightarrow> call list \<Rightarrow> error option"
  ShouldBeIncludedInBaseFilesystem :: "BaseFile \<Rightarrow> bool \<Rightarrow> bool"
  ShouldBeIncludedInBaseKustomization :: "BaseFile \<Rightarrow> bool \<Rightarrow> bool"

text \<open>\<^verbatim>\<open>os.IsNotExist(err)\<close> on the error of a \<^verbatim>\<open>os.Stat\<close>: false on \<^verbatim>\<open>nil\<close>.\<close>

definition IsNotExist :: "sys \<Rightarrow> error option \<Rightarrow> bool" where
  "IsNotExist sys err = (case err of None \<Rightarrow> False | Some e \<Rightarrow> os_IsNotExist sys e)"


section \<open>WriteBase\<close>

text \<open>The loop over \<^verbatim>\<open>b.Files\<close> (part_000, lines 35-60), with the accumulated
  \<^verbatim>\<open>kustomizeResources\<close>. \<open>Inl\<close> is the early \<^verbatim>\<open>return\<close> of an error.\<close>

fun writeBaseFiles ::
    "sys \<Rightarrow> base_WriteOptions \<Rightarrow> BaseFile list \<Rightarrow> string list \<Rightarrow> call list
      \<Rightarrow> (error + string list) \<times> call list" where
  "writeBaseFiles sys options [] kustomizeResources h = (Inr kustomizeResources, h)"
| "writeBaseFiles sys options (file # files) kustomizeResources h =
     (let writeToBase = ShouldBeIncludedInBaseFilesystem sys file (ExcludeKotsKinds options);
          writeToKustomization =
            ShouldBeIncludedInBaseKustomization sys file (ExcludeKotsKinds options)
      in if \<not> writeToBase \<and> \<not> writeToKustomization
         then writeBaseFiles sys options files kustomizeResources h
         else
           (let kustomizeResources' =
                  (if writeToKustomization
                   then kustomizeResources @ [path_Join sys [''.'', Path file]]
                   else kustomizeResources)
            in if writeToBase
               then
                 (let fileRenderPath =
                        path_Join sys [base_WriteOptions.BaseDir options, Path file];
                      d = fst (path_Split sys fileRenderPath);
                      mk = (if IsNotExist sys (os_Stat sys d h)
                            then (os_MkdirAll sys d h, h @ [MkdirAll d])
                            else (None, h))
                  in case fst mk of
                       Some err \<Rightarrow> (Inl (Wrap err ''failed to mkdir''), snd mk)
                     | None \<Rightarrow>
                         (let h2 = snd mk @ [WriteFile fileRenderPath (Content file)]
                          in case ioutil_WriteFile sys fileRenderPath (Content file) (snd mk) of
                               Some err \<Rightarrow> (Inl (Wrap err ''failed to write base file''), h2)
                             | None \<Rightarrow> writeBaseFiles sys options files kustomizeResources' h2))
               else writeBaseFiles sys options files kustomizeResources' h))"

text \<open>What \<^verbatim>\<open>WriteBase\<close> does after its guard (part_000, lines 34-72): the loop,
  then the fresh \<^verbatim>\<open>kustomization.yaml\<close>.\<close>

definition renderBase :: "sys \<Rightarrow> Base \<Rightarrow> base_WriteOptions \<Rightarrow> call list
    \<Rightarrow> error option \<times> call list" where
  "renderBase sys b options h =
     (let renderDir = base_WriteOptions.BaseDir options
      in case writeBaseFiles sys options (Files b) [] h of
           (Inl err, h1) \<Rightarrow> (Some err, h1)
         | (Inr kustomizeResources, h1) \<Rightarrow>
             (let kustomization =
                    \<lparr>APIVersion = ''kustomize.config.k8s.io/v1beta1'',
                     Kind = ''Kustomization'',
                     Resources = kustomizeResources,
                     PatchesStrategicMerge = [],
                     Images = [],
                     Bases = []\<rparr>;
                  filename = path_Join sys [renderDir, ''kustomization.yaml''];
                  h2 = h1 @ [WriteKustomizationToFile kustomization filename]
              in case k8sutil_WriteKustomizationToFile sys kustomization filename h1 of
                   Some err \<Rightarrow> (Some (Wrap err ''failed to write kustomization to file''), h2)
                 | None \<Rightarrow> (None, h2)))"

text \<open>\<^verbatim>\<open>WriteBase\<close> (part_000, lines 20-75). The guard runs only when
  \<^verbatim>\<open>os.Stat\<close> returns no error.\<close>

definition WriteBase :: "sys \<Rightarrow> Base \<Rightarrow> base_WriteOptions \<Rightarrow> call list
    \<Rightarrow> error option \<times> call list" where
  "WriteBase sys b options h =
     (let renderDir = base_WriteOptions.BaseDir options
      in case os_Stat sys renderDir h of
           None \<Rightarrow>
             (if Overwrite options
              then
                (case os_RemoveAll sys renderDir h of
                   Some err \<Rightarrow>
                     (Some (Wrap err ''failed to remove previous content in base''),
                      h @ [RemoveAll renderDir])
                 | None \<Rightarrow> renderBase sys b options (h @ [RemoveAll renderDir]))
              else (Some (Errorf (''directory '' @ renderDir @ '' already exists'')), h))
         | Some _ \<Rightarrow> renderBase sys b options h)"


section \<open>WriteMidstream\<close>

definition KustomizationFilename :: "sys \<Rightarrow> midstream_WriteOptions \<Rightarrow> string" where
  "KustomizationFilename sys options =
     path_Join sys [MidstreamDir options, ''kustomization.yaml'']"

text \<open>\<^verbatim>\<open>writePullSecret\<close> (write.go, lines 108-125).\<close>

definition writePullSecret :: "sys \<Rightarrow> Midstream \<Rightarrow> midstream_WriteOptions \<Rightarrow> call list
    \<Rightarrow> (error + string) \<times> call list" where
  "writePullSecret sys m options h =
     (case PullSecret m of
        None \<Rightarrow> (Inr [], h)
      | Some secret \<Rightarrow>
          (let absFilename = filepath_Join sys [MidstreamDir options, secretFilename]
           in case k8syaml_Marshal sys secret of
                Inl err \<Rightarrow> (Inl (Wrap err ''failed to marshal pull secret''), h)
              | Inr b \<Rightarrow>
                  (case ioutil_WriteFile sys absFilename b h of
                     Some err \<Rightarrow>
                       (Inl (Wrap err ''failed to write pull secret file''),
                        h @ [WriteFile absFilename b])
                   | None \<Rightarrow> (Inr secretFilename, h @ [WriteFile absFilename b]))))"

text \<open>\<^verbatim>\<open>obejctWithPullSecret\<close> (write.go, lines 158-176); the secret is not read.\<close>

definition obejctWithPullSecret :: "Doc \<Rightarrow> Secret option \<Rightarrow> Doc" where
  "obejctWithPullSecret obj secret =
     \<lparr>Doc.APIVersion = Doc.APIVersion obj,
      Kind = Doc.Kind obj,
      Metadata_Name = Metadata_Name obj,
      ImagePullSecrets = [[(''name'', ''kotsadm-replicated-registry'')]]\<rparr>"

text \<open>The loop of \<^verbatim>\<open>writeObjectsWithPullSecret\<close> (write.go, lines 139-153) on the
  created file.\<close>

fun writeObjects :: "sys \<Rightarrow> Secret option \<Rightarrow> string \<Rightarrow> Doc list \<Rightarrow> call list
    \<Rightarrow> error option \<times> call list" where
  "writeObjects sys secret filename [] h = (None, h)"
| "writeObjects sys secret filename (obj # objs) h =
     (let withPullSecret = obejctWithPullSecret obj secret
      in case yaml_Marshal sys withPullSecret of
           Inl err \<Rightarrow> (Some (Wrap err ''failed to marshal object''), h)
         | Inr b \<Rightarrow>
             (let sep = ''---'' @ [CHR 0x0A];
                  h1 = h @ [Write filename sep]
              in case File_Write sys filename sep h of
                   Some err \<Rightarrow> (Some (Wrap err ''failed to write object''), h1)
                 | None \<Rightarrow>
                     (let h2 = h1 @ [Write filename b]
                      in case File_Write sys filename b h1 of
                           Some err \<Rightarrow> (Some (Wrap err ''failed to write object''), h2)
                         | None \<Rightarrow> writeObjects sys secret filename objs h2)))"

text \<open>\<^verbatim>\<open>writeObjectsWithPullSecret\<close> (write.go, lines 127-156). The deferred
  \<^verbatim>\<open>f.Close()\<close> runs on every return after the file was created.\<close>

definition writeObjectsWithPullSecret ::
    "sys \<Rightarrow> Midstream \<Rightarrow> midstream_WriteOptions \<Rightarrow> call list
      \<Rightarrow> (error + string) \<times> call list" where
  "writeObjectsWithPullSecret sys m options h =
     (if length (DocForPatches m) = 0 then (Inr [], h)
      else
        (let filename = filepath_Join sys [MidstreamDir options, patchesFilename]
         in case os_Create sys filename h of
              Some err \<Rightarrow>
                (Inl (Wrap err ''failed to create resources file''), h @ [Create filename])
            | None \<Rightarrow>
                (case writeObjects sys (PullSecret m) filename (DocForPatches m)
                        (h @ [Create filename]) of
                   (Some err, h1) \<Rightarrow> (Inl err, h1 @ [Close filename])
                 | (None, h1) \<Rightarrow> (Inr patchesFilename, h1 @ [Close filename]))))"

text \<open>\<^verbatim>\<open>writeKustomization\<close> (write.go, lines 89-106).\<close>

definition writeKustomization :: "sys \<Rightarrow> Midstream \<Rightarrow> midstream_WriteOptions \<Rightarrow> call list
    \<Rightarrow> error option \<times> Midstream \<times> call list" where
  "writeKustomization sys m options h =
     (case filepath_Rel sys (MidstreamDir options) (midstream_WriteOptions.BaseDir options) of
        Inl err \<Rightarrow>
          (Some (Wrap err ''failed to determine relative path for base from midstream''), m, h)
      | Inr relativeBaseDir \<Rightarrow>
          (let fileRenderPath = KustomizationFilename sys options;
               m' = m\<lparr>Kustomization := (Kustomization m)\<lparr>Bases := [relativeBaseDir]\<rparr>\<rparr>;
               h1 = h @ [WriteKustomizationToFile (Kustomization m') fileRenderPath]
           in case k8sutil_WriteKustomizationToFile sys (Kustomization m') fileRenderPath h of
                Some err \<Rightarrow> (Some (Wrap err ''failed to write kustomization to file''), m', h1)
              | None \<Rightarrow> (None, m', h1)))"

text \<open>The first step of \<^verbatim>\<open>WriteMidstream\<close> (write.go, lines 33-41): the existing
  Kustomization, \<open>Inr None\<close> when the \<^verbatim>\<open>os.Stat\<close> of the file fails.\<close>

definition loadExisting :: "sys \<Rightarrow> midstream_WriteOptions \<Rightarrow> call list
    \<Rightarrow> error + Kustomization option" where
  "loadExisting sys options h =
     (case os_Stat sys (KustomizationFilename sys options) h of
        None \<Rightarrow>
          (case ReadKustomizationFromFile sys (KustomizationFilename sys options) h of
             Inl err \<Rightarrow> Inl (Wrap err ''load existing kustomization'')
           | Inr k \<Rightarrow> Inr (Some k))
      | Some _ \<Rightarrow> Inr None)"

text \<open>\<^verbatim>\<open>WriteMidstream\<close> (write.go, lines 31-72). It returns the error, the composer
  as the call left it and the history. The empty string is \<open>[]\<close>.\<close>

definition WriteMidstream :: "sys \<Rightarrow> Midstream \<Rightarrow> midstream_WriteOptions \<Rightarrow> call list
    \<Rightarrow> error option \<times> Midstream \<times> call list" where
  "WriteMidstream sys m options h =
     (case loadExisting sys options h of
        Inl err \<Rightarrow> (Some err, m, h)
      | Inr existingKustomization \<Rightarrow>
          (let h1 = h @ [MkdirAll (MidstreamDir options)]
           in case os_MkdirAll sys (MidstreamDir options) h of
                Some err \<Rightarrow> (Some (Wrap err ''failed to mkdir''), m, h1)
              | None \<Rightarrow>
                  (case writePullSecret sys m options h1 of
                     (Inl err, h2) \<Rightarrow> (Some (Wrap err ''failed to write secret''), m, h2)
                   | (Inr secretFilename', h2) \<Rightarrow>
                       (let m1 =
                              (if secretFilename' \<noteq> []
                               then m\<lparr>Kustomization := (Kustomization m)
                                      \<lparr>Resources :=
                                         Resources (Kustomization m) @ [secretFilename']\<rparr>\<rparr>
                               else m)
                        in case writeObjectsWithPullSecret sys m1 options h2 of
                             (Inl err, h3) \<Rightarrow>
                               (Some (Wrap err ''failed to write patches''), m1, h3)
                           | (Inr patchFilename, h3) \<Rightarrow>
                               (let m2 =
                                      (if patchFilename \<noteq> []
                                       then m1\<lparr>Kustomization := (Kustomization m1)
                                              \<lparr>PatchesStrategicMerge :=
                                                 PatchesStrategicMerge (Kustomization m1)
                                                   @ [patchFilename]\<rparr>\<rparr>
                                       else m1);
                                    m3 = mergeKustomization m2 existingKustomization
                                in case writeKustomization sys m3 options h3 of
                                     (Some err, m4, h4) \<Rightarrow>
                                       (Some (Wrap err ''failed to write kustomization''), m4, h4)
                                   | (None, m4, h4) \<Rightarrow> (None, m4, h4))))))"


section \<open>An in-memory environment for the examples\<close>

text \<open>
  A small environment on which the theorems below are run: the paths present on the disk
  are the initial ones as changed by the calls of the history, every mutating call
  succeeds, a Kustomization file parses when the table \<open>parsed\<close> has it, every
  file goes to the base directory and the files named \<^verbatim>\<open>*.yaml\<close> go to the resource
  list. \<open>join_path\<close> and \<open>split_path\<close> stand for \<^verbatim>\<open>path.Join\<close> and \<^verbatim>\<open>path.Split\<close>
  on the clean paths of the examples.
\<close>

fun join_path :: "string list \<Rightarrow> string" where
  "join_path [] = []"
| "join_path [a] = a"
| "join_path (a # b # rest) = (if a = ''.'' then join_path (b # rest) else a @ ''/'' @ join_path (b # rest))"

definition split_path :: "string \<Rightarrow> string \<times> string" where
  "split_path p =
     (rev (dropWhile (\<lambda>c. c \<noteq> CHR ''/'') (rev p)), rev (takeWhile (\<lambda>c. c \<noteq> CHR ''/'') (rev p)))"

fun apply_call :: "string list \<Rightarrow> call \<Rightarrow> string list" where
  "apply_call ps (RemoveAll p) = filter (\<lambda>q. q \<noteq> p \<and> \<not> prefix (p @ ''/'') q) ps"
| "apply_call ps (MkdirAll p) = p # ps"
| "apply_call ps (WriteFile p b) = p # ps"
| "apply_call ps (Create p) = p # ps"
| "apply_call ps (Write p b) = ps"
| "apply_call ps (Close p) = ps"
| "apply_call ps (WriteKustomizationToFile k p) = p # ps"

definition ENOENT :: error where
  "ENOENT = External ''no such file or directory''"

definition EACCES :: error where
  "EACCES = External ''permission denied''"

definition mem_sys :: "string list \<Rightarrow> (string \<times> Kustomization) list \<Rightarrow> sys" where
  "mem_sys present parsed =
     \<lparr>os_Stat = (\<lambda>p h. if p \<in> set (foldl apply_call present h) then None else Some ENOENT),
      os_IsNotExist = (\<lambda>e. e = ENOENT),
      os_RemoveAll = (\<lambda>p h. None),
      os_MkdirAll = (\<lambda>p h. None),
      ioutil_WriteFile = (\<lambda>p b h. None),
      os_Create = (\<lambda>p h. None),
      File_Write = (\<lambda>p b h. None),
      path_Join = join_path,
      path_Split = split_path,
      filepath_Join = join_path,
      filepath_Rel = (\<lambda>basepath targpath. Inr (''../'' @ snd (split_path targpath))),
      k8syaml_Marshal = (\<lambda>s. case s of Secret name data \<Rightarrow> Inr (name @ '': '' @ data)),
      yaml_Marshal = (\<lambda>d. Inr (Doc.Kind d @ ''/'' @ Metadata_Name d)),
      ReadKustomizationFromFile =
        (\<lambda>p h. case map_of parsed p of
                  None \<Rightarrow> Inl (External ''cannot unmarshal'')
                | Some k \<Rightarrow> Inr k),
      k8sutil_WriteKustomizationToFile = (\<lambda>k p h. None),
      ShouldBeIncludedInBaseFilesystem = (\<lambda>f excludeKotsKinds. True),
      ShouldBeIncludedInBaseKustomization =
        (\<lambda>f excludeKotsKinds. drop (length (Path f) - 5) (Path f) = ''.yaml'')\<rparr>"

text \<open>The Kustomization with the given three lists, for the examples.\<close>

definition kustomization_of ::
    "string list \<Rightarrow> PatchStrategicMerge list \<Rightarrow> Image list \<Rightarrow> Kustomization" where
  "kustomization_of resources patches images =
     \<lparr>APIVersion = ''kustomize.config.k8s.io/v1beta1'',
      Kind = ''Kustomization'',
      Resources = resources,
      PatchesStrategicMerge = patches,
      Images = images,
      Bases = []\<rparr>"


text \<open>The inputs of the examples: a base of three files (one path twice, one file that is
  not a manifest), and a composer with a pull secret and one document to patch, rendered
  into a directory that already holds a Kustomization edited by hand.\<close>

definition example_base_options :: base_WriteOptions where
  "example_base_options =
     \<lparr>base_WriteOptions.BaseDir = ''/app/base'', Overwrite = False, ExcludeKotsKinds = False\<rparr>"

definition example_base :: Base where
  "example_base =
     \<lparr>Files = [\<lparr>Path = ''deployment.yaml'', Content = ''kind: Deployment''\<rparr>,
               \<lparr>Path = ''charts/README.md'', Content = ''readme''\<rparr>,
               \<lparr>Path = ''deployment.yaml'', Content = ''kind: Deployment''\<rparr>]\<rparr>"

definition example_options :: midstream_WriteOptions where
  "example_options = \<lparr>MidstreamDir = ''/app/midstream'', BaseDir = ''/app/base''\<rparr>"

definition example_existing :: Kustomization where
  "example_existing =
     (kustomization_of [''custom.yaml''] [''custom-patch.yaml'']
        [\<lparr>Name = ''myapp'', NewName = ''registry.local/myapp'', NewTag = ''old'', Digest = []\<rparr>])
     \<lparr>Bases := [''../elsewhere'']\<rparr>"

definition example_midstream :: Midstream where
  "example_midstream =
     \<lparr>Kustomization =
        kustomization_of [] []
          [\<lparr>Name = ''myapp'', NewName = ''registry.local/myapp'', NewTag = ''new'', Digest = []\<rparr>],
      PullSecret = Some (Secret ''kotsadm-replicated-registry'' ''e30=''),
      DocForPatches =
        [\<lparr>Doc.APIVersion = ''apps/v1'', Kind = ''Deployment'', Metadata_Name = ''myapp'',
          ImagePullSecrets = []\<rparr>]\<rparr>"

definition example_sys :: sys where
  "example_sys =
     mem_sys [''/app/midstream'', ''/app/midstream/kustomization.yaml'']
       [(''/app/midstream/kustomization.yaml'', example_existing)]"


section \<open>Properties of the merge\<close>

lemma mergeKustomization_None: "mergeKustomization m None = m"
  by (simp add: mergeKustomization_def)

lemma Images_mergeKustomization:
  "Images (Kustomization (mergeKustomization m (Some ex))) =
     Images (Kustomization m) @ removeExistingImages (Images (Kustomization m)) (Images ex)"
  by (simp add: mergeKustomization_def Let_def)

lemma Patches_mergeKustomization:
  "PatchesStrategicMerge (Kustomization (mergeKustomization m (Some ex))) =
     PatchesStrategicMerge ex
       @ findNewPatches (PatchesStrategicMerge (Kustomization m)) (PatchesStrategicMerge ex)"
  by (simp add: mergeKustomization_def Let_def)

lemma Resources_mergeKustomization:
  "Resources (Kustomization (mergeKustomization m (Some ex))) =
     Resources ex @ findNewStrings (Resources (Kustomization m)) (Resources ex)"
  by (simp add: mergeKustomization_def Let_def)

lemma set_findNewStrings: "set (findNewStrings new ex) = set new - set ex"
  by (auto simp: findNewStrings_def)

lemma set_findNewPatches: "set (findNewPatches new ex) = set new - set ex"
  by (auto simp: findNewPatches_def)

lemma distinct_findNewStrings: "distinct new \<Longrightarrow> distinct (findNewStrings new ex)"
  by (simp add: findNewStrings_def)

text \<open>The merged resources depend on the composer through its resources only.\<close>

lemma Resources_merge_cong:
  "Resources (Kustomization m1) = Resources (Kustomization m2) \<Longrightarrow>
   Resources (Kustomization (mergeKustomization m1 existing)) =
   Resources (Kustomization (mergeKustomization m2 existing))"
  by (cases existing) (simp_all add: mergeKustomization_None Resources_mergeKustomization)

text \<open>Whatever the composer holds before the merge is in the merged resources and patches
  (with the helpers as the spec describes them).\<close>

lemma Resources_merge_keeps:
  "x \<in> set (Resources (Kustomization m)) \<Longrightarrow>
   x \<in> set (Resources (Kustomization (mergeKustomization m existing)))"
  by (cases existing)
     (auto simp: mergeKustomization_None Resources_mergeKustomization set_findNewStrings)

lemma Patches_merge_keeps:
  "x \<in> set (PatchesStrategicMerge (Kustomization m)) \<Longrightarrow>
   x \<in> set (PatchesStrategicMerge (Kustomization (mergeKustomization m existing)))"
  by (cases existing)
     (auto simp: mergeKustomization_None Patches_mergeKustomization set_findNewPatches)


text \<open>
  \<^bold>\<open>C1\<close> (as the code has it). For every merge of a newly computed Kustomization with an
  existing one, the image list is the newly computed list followed by what
  \<^verbatim>\<open>removeExistingImages\<close> returns: write.go line 80 appends to
  \<^verbatim>\<open>m.Kustomization.Images\<close>, not to \<^verbatim>\<open>existing.Images\<close>. So every newly
  computed entry is kept, and where the existing list has an entry under the same name,
  the new entry is in the final list.
\<close>

theorem mergeKustomization_images_new_first:
  assumes "img \<in> set (Images (Kustomization m))"
  shows "Images (Kustomization (mergeKustomization m (Some ex))) =
           Images (Kustomization m)
             @ removeExistingImages (Images (Kustomization m)) (Images ex)
         \<and> img \<in> set (Images (Kustomization (mergeKustomization m (Some ex))))"
  using assms by (simp add: Images_mergeKustomization)

theorem mergeKustomization_images_new_first_witness:
  "\<lparr>Name = ''myapp'', NewName = ''myapp'', NewTag = ''new'', Digest = []\<rparr>
     \<in> set (Images (Kustomization (example_midstream\<lparr>Kustomization :=
          kustomization_of [] []
            [\<lparr>Name = ''myapp'', NewName = ''myapp'', NewTag = ''new'', Digest = []\<rparr>]\<rparr>)))
   \<and> \<lparr>Name = ''myapp'', NewName = ''myapp'', NewTag = ''new'', Digest = []\<rparr>
     \<in> set (Images (Kustomization (mergeKustomization
          (example_midstream\<lparr>Kustomization :=
             kustomization_of [] []
               [\<lparr>Name = ''myapp'', NewName = ''myapp'', NewTag = ''new'', Digest = []\<rparr>]\<rparr>)
          (Some (kustomization_of [] []
             [\<lparr>Name = ''myapp'', NewName = ''myapp'', NewTag = ''old'', Digest = []\<rparr>])))))"
  using mergeKustomization_images_new_first
    [of "\<lparr>Name = ''myapp'', NewName = ''myapp'', NewTag = ''new'', Digest = []\<rparr>"
        "example_midstream\<lparr>Kustomization :=
           kustomization_of [] []
             [\<lparr>Name = ''myapp'', NewName = ''myapp'', NewTag = ''new'', Digest = []\<rparr>]\<rparr>"
        "kustomization_of [] []
           [\<lparr>Name = ''myapp'', NewName = ''myapp'', NewTag = ''old'', Digest = []\<rparr>]"]
  by (simp add: kustomization_of_def)

text \<open>
  C1 as the spec states it fails: the existing list holds \<^verbatim>\<open>myapp\<close> with tag
  \<^verbatim>\<open>old\<close>, the new computation proposes \<^verbatim>\<open>myapp\<close> with tag \<^verbatim>\<open>new\<close>, and the
  new entry is the first of the merged list. The proof does not look into
  \<^verbatim>\<open>removeExistingImages\<close>.
\<close>

theorem mergeKustomization_images_existing_wins_counterexample:
  "hd (Images (Kustomization (mergeKustomization
      \<lparr>Kustomization =
         kustomization_of [] []
           [\<lparr>Name = ''myapp'', NewName = ''myapp'', NewTag = ''new'', Digest = []\<rparr>],
       PullSecret = None, DocForPatches = []\<rparr>
      (Some (kustomization_of [] []
           [\<lparr>Name = ''myapp'', NewName = ''myapp'', NewTag = ''old'', Digest = []\<rparr>])))))
     = \<lparr>Name = ''myapp'', NewName = ''myapp'', NewTag = ''new'', Digest = []\<rparr>
   \<and> \<lparr>Name = ''myapp'', NewName = ''myapp'', NewTag = ''new'', Digest = []\<rparr>
     \<in> set (Images (Kustomization (mergeKustomization
      \<lparr>Kustomization =
         kustomization_of [] []
           [\<lparr>Name = ''myapp'', NewName = ''myapp'', NewTag = ''new'', Digest = []\<rparr>],
       PullSecret = None, DocForPatches = []\<rparr>
      (Some (kustomization_of [] []
           [\<lparr>Name = ''myapp'', NewName = ''myapp'', NewTag = ''old'', Digest = []\<rparr>])))))"
  by (simp add: Images_mergeKustomization kustomization_of_def)

text \<open>
  \<^bold>\<open>C2\<close> (as the code has it). For every existing Kustomization and every newly computed
  one, the merged resources and strategic-merge patches hold every entry of either, the
  existing entries first and in their order; in the image list it is the newly computed
  entries that come first and in their order.
\<close>

theorem mergeKustomization_monotonic:
  "prefix (Resources ex) (Resources (Kustomization (mergeKustomization m (Some ex))))
   \<and> set (Resources (Kustomization (mergeKustomization m (Some ex)))) =
       set (Resources ex) \<union> set (Resources (Kustomization m))
   \<and> prefix (PatchesStrategicMerge ex)
        (PatchesStrategicMerge (Kustomization (mergeKustomization m (Some ex))))
   \<and> set (PatchesStrategicMerge (Kustomization (mergeKustomization m (Some ex)))) =
       set (PatchesStrategicMerge ex) \<union> set (PatchesStrategicMerge (Kustomization m))
   \<and> prefix (Images (Kustomization m))
        (Images (Kustomization (mergeKustomization m (Some ex))))"
proof -
  have "set (Resources (Kustomization (mergeKustomization m (Some ex)))) =
       set (Resources ex) \<union> set (Resources (Kustomization m))"
    by (auto simp: Resources_mergeKustomization set_findNewStrings)
  moreover
  have "set (PatchesStrategicMerge (Kustomization (mergeKustomization m (Some ex)))) =
       set (PatchesStrategicMerge ex) \<union> set (PatchesStrategicMerge (Kustomization m))"
    by (auto simp: Patches_mergeKustomization set_findNewPatches)
  ultimately show ?thesis
    by (simp add: Resources_mergeKustomization Patches_mergeKustomization
          Images_mergeKustomization)
qed

text \<open>
  C2 as the spec states it fails on the images: with \<^verbatim>\<open>nginx\<close> in the existing list and
  \<^verbatim>\<open>redis\<close> newly computed, the merged image list does not start with the existing
  entry. The proof does not look into \<^verbatim>\<open>removeExistingImages\<close>.
\<close>

theorem mergeKustomization_images_prefix_counterexample:
  "\<not> prefix
       (Images (kustomization_of [] []
          [\<lparr>Name = ''nginx'', NewName = ''registry.local/nginx'', NewTag = ''1.0'', Digest = []\<rparr>]))
       (Images (Kustomization (mergeKustomization
          \<lparr>Kustomization =
             kustomization_of [] []
               [\<lparr>Name = ''redis'', NewName = ''registry.local/redis'', NewTag = ''5'',
                 Digest = []\<rparr>],
           PullSecret = None, DocForPatches = []\<rparr>
          (Some (kustomization_of [] []
             [\<lparr>Name = ''nginx'', NewName = ''registry.local/nginx'', NewTag = ''1.0'',
               Digest = []\<rparr>])))))"
  by (simp add: Images_mergeKustomization kustomization_of_def)

text \<open>
  \<^bold>\<open>C3\<close> (as the code has it). Duplicates are looked for against the existing list only,
  by string equality: when neither the existing resources nor the newly computed ones
  repeat a path, the merged resources repeat none, also when the two lists share paths.
\<close>

theorem mergeKustomization_resources_distinct:
  assumes "distinct (Resources ex)" and "distinct (Resources (Kustomization m))"
  shows "distinct (Resources (Kustomization (mergeKustomization m (Some ex))))"
  using assms
  by (auto simp: Resources_mergeKustomization set_findNewStrings distinct_findNewStrings)

theorem mergeKustomization_resources_distinct_witness:
  "distinct (Resources (kustomization_of [''a.yaml'', ''b.yaml''] [] []))
   \<and> distinct (Resources (Kustomization
        (example_midstream\<lparr>Kustomization := kustomization_of [''b.yaml'', ''c.yaml''] [] []\<rparr>)))
   \<and> Resources (Kustomization (mergeKustomization
        (example_midstream\<lparr>Kustomization := kustomization_of [''b.yaml'', ''c.yaml''] [] []\<rparr>)
        (Some (kustomization_of [''a.yaml'', ''b.yaml''] [] []))))
      = [''a.yaml'', ''b.yaml'', ''c.yaml'']
   \<and> distinct (Resources (Kustomization (mergeKustomization
        (example_midstream\<lparr>Kustomization := kustomization_of [''b.yaml'', ''c.yaml''] [] []\<rparr>)
        (Some (kustomization_of [''a.yaml'', ''b.yaml''] [] [])))))"
  using mergeKustomization_resources_distinct
    [of "kustomization_of [''a.yaml'', ''b.yaml''] [] []"
        "example_midstream\<lparr>Kustomization := kustomization_of [''b.yaml'', ''c.yaml''] [] []\<rparr>"]
  by (simp add: kustomization_of_def Resources_mergeKustomization findNewStrings_def)

text \<open>
  C3 as the spec states it fails when the existing list itself repeats a path: the
  repeated \<^verbatim>\<open>deployment.yaml\<close> of the existing Kustomization is still there twice after
  the merge. The proof does not look into \<^verbatim>\<open>findNewStrings\<close>.
\<close>

theorem mergeKustomization_resources_duplicate_counterexample:
  "\<not> distinct (Resources (Kustomization (mergeKustomization
        \<lparr>Kustomization = kustomization_of [''deployment.yaml''] [] [],
         PullSecret = None, DocForPatches = []\<rparr>
        (Some (kustomization_of [''deployment.yaml'', ''deployment.yaml''] [] [])))))"
  by (simp add: Resources_mergeKustomization kustomization_of_def)


section \<open>Properties of the environment of the examples\<close>

lemma mem_sys_simps:
  "os_Stat (mem_sys present parsed) p h =
     (if p \<in> set (foldl apply_call present h) then None else Some ENOENT)"
  "os_IsNotExist (mem_sys present parsed) e = (e = ENOENT)"
  "os_RemoveAll (mem_sys present parsed) p h = None"
  "os_MkdirAll (mem_sys present parsed) p h = None"
  "ioutil_WriteFile (mem_sys present parsed) p b h = None"
  "os_Create (mem_sys present parsed) p h = None"
  "File_Write (mem_sys present parsed) p b h = None"
  "path_Join (mem_sys present parsed) = join_path"
  "path_Split (mem_sys present parsed) = split_path"
  "filepath_Join (mem_sys present parsed) = join_path"
  "filepath_Rel (mem_sys present parsed) basepath targpath =
     Inr (''../'' @ snd (split_path targpath))"
  "k8syaml_Marshal (mem_sys present parsed) (Secret name data) = Inr (name @ '': '' @ data)"
  "yaml_Marshal (mem_sys present parsed) d = Inr (Doc.Kind d @ ''/'' @ Metadata_Name d)"
  "ReadKustomizationFromFile (mem_sys present parsed) p h =
     (case map_of parsed p of None \<Rightarrow> Inl (External ''cannot unmarshal'') | Some k \<Rightarrow> Inr k)"
  "k8sutil_WriteKustomizationToFile (mem_sys present parsed) k p h = None"
  "ShouldBeIncludedInBaseFilesystem (mem_sys present parsed) f excludeKotsKinds = True"
  "ShouldBeIncludedInBaseKustomization (mem_sys present parsed) f excludeKotsKinds =
     (drop (length (Path f) - 5) (Path f) = ''.yaml'')"
  by (simp_all add: mem_sys_def)

lemmas example_defs =
  example_base_def example_base_options_def
  example_options_def example_existing_def example_midstream_def example_sys_def
  kustomization_of_def secretFilename_def patchesFilename_def

lemmas midstream_defs =
  WriteMidstream_def loadExisting_def KustomizationFilename_def writePullSecret_def
  writeObjectsWithPullSecret_def writeKustomization_def obejctWithPullSecret_def
  mergeKustomization_def removeExistingImages_def findNewPatches_def findNewStrings_def


section \<open>Properties of WriteBase\<close>

lemma issued_append [simp]: "issued h (h @ cs) = cs"
  by (simp add: issued_def)

lemma issued_self [simp]: "issued h h = []"
  by (simp add: issued_def)

text \<open>The loop issues \<^verbatim>\<open>MkdirAll\<close> and \<^verbatim>\<open>WriteFile\<close> calls only, after the calls of
  the history it received.\<close>

lemma writeBaseFiles_calls:
  "writeBaseFiles sys options files acc h = (r, h') \<Longrightarrow>
     \<exists>cs. h' = h @ cs \<and> (\<forall>c\<in>set cs. is_MkdirAll c \<or> is_WriteFile c)"
proof (induction files arbitrary: acc h)
  case Nil
  then show ?case by simp
next
  case (Cons f fs)
  show ?case
    using Cons.prems
    apply (simp add: Let_def split: if_splits option.splits)
    apply (auto dest!: Cons.IH)
    done
qed

text \<open>When the loop ends without an error, it has appended the path of every file that
  \<^verbatim>\<open>ShouldBeIncludedInBaseKustomization\<close> accepts, in the order of the files.\<close>

lemma writeBaseFiles_resources:
  "writeBaseFiles sys options files acc h = (Inr rs, h') \<Longrightarrow>
     rs = acc @ map (\<lambda>file. path_Join sys [''.'', Path file])
            (filter (\<lambda>file. ShouldBeIncludedInBaseKustomization sys file
                               (ExcludeKotsKinds options)) files)"
proof (induction files arbitrary: acc h)
  case Nil
  then show ?case by simp
next
  case (Cons f fs)
  show ?case
    using Cons.prems
    apply (simp add: Let_def split: if_splits option.splits)
    apply (auto dest!: Cons.IH)
    done
qed

lemma writeBaseFiles_error:
  "writeBaseFiles sys options files acc h = (Inl e, h') \<Longrightarrow> \<exists>err msg. e = Wrap err msg"
proof (induction files arbitrary: acc h)
  case Nil
  then show ?case by simp
next
  case (Cons f fs)
  show ?case
    using Cons.prems
    apply (simp add: Let_def split: if_splits option.splits)
    apply (auto dest!: Cons.IH)
    done
qed

lemma no_kustomization_write:
  assumes "\<forall>c\<in>set cs. is_MkdirAll c \<or> is_WriteFile c"
  shows "\<not> list_ex is_WriteKustomizationToFile cs"
proof -
  have "\<forall>c\<in>set cs. \<not> is_WriteKustomizationToFile c"
  proof
    fix c assume "c \<in> set cs"
    with assms have "is_MkdirAll c \<or> is_WriteFile c" by blast
    then show "\<not> is_WriteKustomizationToFile c" by (cases c) auto
  qed
  then show ?thesis by (simp add: list_ex_iff)
qed

lemma renderBase_success:
  assumes "renderBase sys b options h = (None, h')"
  shows "\<exists>cs. h' = h @ cs @
            [WriteKustomizationToFile
               \<lparr>APIVersion = ''kustomize.config.k8s.io/v1beta1'',
                Kind = ''Kustomization'',
                Resources =
                  map (\<lambda>file. path_Join sys [''.'', Path file])
                    (filter (\<lambda>file. ShouldBeIncludedInBaseKustomization sys file
                                       (ExcludeKotsKinds options))
                       (Files b)),
                PatchesStrategicMerge = [],
                Images = [],
                Bases = []\<rparr>
               (path_Join sys [base_WriteOptions.BaseDir options, ''kustomization.yaml''])]
        \<and> (\<forall>c\<in>set cs. is_MkdirAll c \<or> is_WriteFile c)"
proof -
  obtain r h1 where loop: "writeBaseFiles sys options (Files b) [] h = (r, h1)"
    by (cases "writeBaseFiles sys options (Files b) [] h") auto
  from assms loop obtain rs where r: "r = Inr rs"
    by (cases r) (auto simp: renderBase_def)
  from loop r have rs: "rs = map (\<lambda>file. path_Join sys [''.'', Path file])
                    (filter (\<lambda>file. ShouldBeIncludedInBaseKustomization sys file
                                       (ExcludeKotsKinds options))
                       (Files b))"
    by (auto dest: writeBaseFiles_resources)
  from loop obtain cs where cs: "h1 = h @ cs" "\<forall>c\<in>set cs. is_MkdirAll c \<or> is_WriteFile c"
    by (blast dest: writeBaseFiles_calls)
  from assms loop r
  have "h' = h1 @ [WriteKustomizationToFile
               \<lparr>APIVersion = ''kustomize.config.k8s.io/v1beta1'',
                Kind = ''Kustomization'',
                Resources = rs,
                PatchesStrategicMerge = [],
                Images = [],
                Bases = []\<rparr>
            (path_Join sys [base_WriteOptions.BaseDir options, ''kustomization.yaml''])]"
    by (auto simp: renderBase_def Let_def split: option.splits)
  with cs rs show ?thesis by auto
qed

lemma renderBase_calls:
  assumes "renderBase sys b options h = (r, h')"
  shows "\<exists>cs. h' = h @ cs \<and> (\<forall>c\<in>set cs. \<not> is_RemoveAll c)"
proof -
  obtain r1 h1 where loop: "writeBaseFiles sys options (Files b) [] h = (r1, h1)"
    by (cases "writeBaseFiles sys options (Files b) [] h") auto
  from loop obtain cs where cs: "h1 = h @ cs" "\<forall>c\<in>set cs. is_MkdirAll c \<or> is_WriteFile c"
    by (blast dest: writeBaseFiles_calls)
  have no: "\<forall>c\<in>set cs. \<not> is_RemoveAll c"
  proof
    fix c assume "c \<in> set cs"
    with cs(2) have "is_MkdirAll c \<or> is_WriteFile c" by blast
    then show "\<not> is_RemoveAll c" by (cases c) auto
  qed
  from assms loop have "h' = h1 \<or> (\<exists>k p. h' = h1 @ [WriteKustomizationToFile k p])"
    by (auto simp: renderBase_def Let_def split: sum.splits option.splits)
  then show ?thesis
  proof
    assume "h' = h1"
    with cs no show ?thesis by auto
  next
    assume "\<exists>k p. h' = h1 @ [WriteKustomizationToFile k p]"
    then obtain k p where "h' = h @ (cs @ [WriteKustomizationToFile k p])"
      using cs by auto
    moreover have "\<forall>c\<in>set (cs @ [WriteKustomizationToFile k p]). \<not> is_RemoveAll c"
      using no by auto
    ultimately show ?thesis by blast
  qed
qed

lemma renderBase_error:
  assumes "renderBase sys b options h = (Some e, h')"
  shows "\<exists>err msg. e = Wrap err msg"
proof -
  obtain r1 h1 where loop: "writeBaseFiles sys options (Files b) [] h = (r1, h1)"
    by (cases "writeBaseFiles sys options (Files b) [] h") auto
  show ?thesis
  proof (cases r1)
    case (Inl e1)
    with assms loop have "e = e1" by (auto simp: renderBase_def)
    with loop Inl show ?thesis by (auto dest: writeBaseFiles_error)
  next
    case (Inr rs)
    with assms loop show ?thesis
      by (auto simp: renderBase_def Let_def split: option.splits)
  qed
qed

text \<open>A successful \<^verbatim>\<open>WriteBase\<close> is a successful render, after the removal of the
  directory or after nothing.\<close>

lemma WriteBase_success:
  assumes "WriteBase sys b options h = (None, h')"
  shows "\<exists>h0. renderBase sys b options h0 = (None, h') \<and>
            (h0 = h \<or> h0 = h @ [RemoveAll (base_WriteOptions.BaseDir options)])"
  using assms
  by (auto simp: WriteBase_def Let_def split: option.splits if_splits)

lemma example_base_run:
  "WriteBase (mem_sys [] []) example_base example_base_options [] =
    (None,
       [MkdirAll ''/app/base/'',
        WriteFile ''/app/base/deployment.yaml'' ''kind: Deployment'',
        MkdirAll ''/app/base/charts/'',
        WriteFile ''/app/base/charts/README.md'' ''readme'',
        WriteFile ''/app/base/deployment.yaml'' ''kind: Deployment'',
        WriteKustomizationToFile
          (kustomization_of [''deployment.yaml'', ''deployment.yaml''] [] [])
          ''/app/base/kustomization.yaml''])"
  by (simp add: WriteBase_def renderBase_def example_defs
        mem_sys_simps Let_def IsNotExist_def ENOENT_def split_path_def)

text \<open>The same base where the directory is there but cannot be examined: every
  \<^verbatim>\<open>os.Stat\<close> fails with a permission error.\<close>

lemma example_base_denied_run:
  "renderBase ((mem_sys [''/app/base''] [])\<lparr>os_Stat := \<lambda>p h. Some EACCES\<rparr>)
       example_base example_base_options [] =
    (None,
       [WriteFile ''/app/base/deployment.yaml'' ''kind: Deployment'',
        WriteFile ''/app/base/charts/README.md'' ''readme'',
        WriteFile ''/app/base/deployment.yaml'' ''kind: Deployment'',
        WriteKustomizationToFile
          (kustomization_of [''deployment.yaml'', ''deployment.yaml''] [] [])
          ''/app/base/kustomization.yaml''])"
  by (simp add: renderBase_def example_defs
        mem_sys_simps Let_def IsNotExist_def ENOENT_def EACCES_def split_path_def)


text \<open>
  \<^bold>\<open>C4\<close>. When the \<^verbatim>\<open>os.Stat\<close> of \<^verbatim>\<open>BaseDir\<close> succeeds and \<^verbatim>\<open>Overwrite\<close> is
  false, \<^verbatim>\<open>WriteBase\<close> returns the error "directory ... already exists" and has issued
  no call: nothing was created, written or removed.
\<close>

theorem WriteBase_already_exists:
  assumes "os_Stat sys (base_WriteOptions.BaseDir options) h = None"
    and "\<not> Overwrite options"
  shows "WriteBase sys b options h =
     (Some (Errorf (''directory '' @ base_WriteOptions.BaseDir options @ '' already exists'')), h)"
  using assms by (simp add: WriteBase_def)

theorem WriteBase_already_exists_witness:
  "os_Stat (mem_sys [''/app/base'', ''/app/base/deployment.yaml''] [])
      (base_WriteOptions.BaseDir example_base_options) [] = None
   \<and> \<not> Overwrite example_base_options
   \<and> WriteBase (mem_sys [''/app/base'', ''/app/base/deployment.yaml''] [])
        example_base example_base_options []
      = (Some (Errorf ''directory /app/base already exists''), [])"
  using WriteBase_already_exists
    [of "mem_sys [''/app/base'', ''/app/base/deployment.yaml''] []"
        example_base_options "[]" example_base]
  by (simp add: mem_sys_simps example_base_options_def)

text \<open>
  \<^bold>\<open>C9\<close>. A successful \<^verbatim>\<open>WriteBase\<close> ends with the one write of a Kustomization it
  makes: to \<^verbatim>\<open>kustomization.yaml\<close> in \<^verbatim>\<open>BaseDir\<close>, of a Kustomization whose resources
  are the paths \<^verbatim>\<open>path.Join(".", file.Path)\<close> of the files that
  \<^verbatim>\<open>ShouldBeIncludedInBaseKustomization\<close> accepts, in the order of the files and with
  repetitions kept, and whose other lists are empty. It is a function of the files and
  of the options alone: nothing on the disk is merged into it.
\<close>

theorem WriteBase_fresh_kustomization:
  assumes "WriteBase sys b options h = (None, h')"
  shows "\<exists>cs. h' = h @ cs @
            [WriteKustomizationToFile
               \<lparr>APIVersion = ''kustomize.config.k8s.io/v1beta1'',
                Kind = ''Kustomization'',
                Resources =
                  map (\<lambda>file. path_Join sys [''.'', Path file])
                    (filter (\<lambda>file. ShouldBeIncludedInBaseKustomization sys file
                                       (ExcludeKotsKinds options))
                       (Files b)),
                PatchesStrategicMerge = [],
                Images = [],
                Bases = []\<rparr>
               (path_Join sys [base_WriteOptions.BaseDir options, ''kustomization.yaml''])]
         \<and> \<not> list_ex is_WriteKustomizationToFile cs"
proof -
  let ?w = "WriteKustomizationToFile
               \<lparr>APIVersion = ''kustomize.config.k8s.io/v1beta1'',
                Kind = ''Kustomization'',
                Resources =
                  map (\<lambda>file. path_Join sys [''.'', Path file])
                    (filter (\<lambda>file. ShouldBeIncludedInBaseKustomization sys file
                                       (ExcludeKotsKinds options))
                       (Files b)),
                PatchesStrategicMerge = [],
                Images = [],
                Bases = []\<rparr>
               (path_Join sys [base_WriteOptions.BaseDir options, ''kustomization.yaml''])"
  from WriteBase_success [OF assms] obtain h0 where
    r: "renderBase sys b options h0 = (None, h')" and
    h0: "h0 = h \<or> h0 = h @ [RemoveAll (base_WriteOptions.BaseDir options)]"
    by blast
  from renderBase_success [OF r] obtain cs where
    cs: "h' = h0 @ cs @ [?w]" "\<forall>c\<in>set cs. is_MkdirAll c \<or> is_WriteFile c"
    by blast
  have no: "\<not> list_ex is_WriteKustomizationToFile cs"
    using cs(2) by (rule no_kustomization_write)
  from h0 show ?thesis
  proof
    assume "h0 = h"
    with cs(1) no show ?thesis by blast
  next
    assume "h0 = h @ [RemoveAll (base_WriteOptions.BaseDir options)]"
    with cs(1) have "h' = h @ (RemoveAll (base_WriteOptions.BaseDir options) # cs) @ [?w]"
      by simp
    moreover have "\<not> list_ex is_WriteKustomizationToFile
        (RemoveAll (base_WriteOptions.BaseDir options) # cs)"
      using no by simp
    ultimately show ?thesis by blast
  qed
qed

theorem WriteBase_fresh_kustomization_witness:
  "WriteBase (mem_sys [] []) example_base example_base_options [] =
     (None, snd (WriteBase (mem_sys [] []) example_base example_base_options []))
   \<and> (\<exists>cs. snd (WriteBase (mem_sys [] []) example_base example_base_options []) =
          cs @ [WriteKustomizationToFile
                  (kustomization_of [''deployment.yaml'', ''deployment.yaml''] [] [])
                  ''/app/base/kustomization.yaml'']
        \<and> \<not> list_ex is_WriteKustomizationToFile cs)"
  using WriteBase_fresh_kustomization
    [of "mem_sys [] []" example_base example_base_options "[]"
        "snd (WriteBase (mem_sys [] []) example_base example_base_options [])"]
  unfolding example_base_run
  by (simp add: example_defs mem_sys_simps)

text \<open>
  \<^bold>\<open>C10\<close>. When the \<^verbatim>\<open>os.Stat\<close> of \<^verbatim>\<open>BaseDir\<close> returns an error, whichever it is,
  \<^verbatim>\<open>WriteBase\<close> is the plain render on the history it received, whatever
  \<^verbatim>\<open>Overwrite\<close> says: it issues no \<^verbatim>\<open>RemoveAll\<close> and does not return the
  "already exists" error.
\<close>

theorem WriteBase_stat_error_renders:
  assumes "os_Stat sys (base_WriteOptions.BaseDir options) h = Some e"
  shows "WriteBase sys b options h = renderBase sys b options h
         \<and> \<not> list_ex is_RemoveAll (issued h (snd (WriteBase sys b options h)))
         \<and> fst (WriteBase sys b options h) \<noteq> Some (Errorf msg)"
proof -
  have eq: "WriteBase sys b options h = renderBase sys b options h"
    using assms by (simp add: WriteBase_def)
  obtain r h' where run: "renderBase sys b options h = (r, h')"
    by (cases "renderBase sys b options h") auto
  from renderBase_calls [OF run] obtain cs where
    "h' = h @ cs" "\<forall>c\<in>set cs. \<not> is_RemoveAll c" by blast
  then have "\<not> list_ex is_RemoveAll (issued h h')"
    by (simp add: list_ex_iff)
  moreover have "r \<noteq> Some (Errorf msg)"
  proof
    assume "r = Some (Errorf msg)"
    with run have "renderBase sys b options h = (Some (Errorf msg), h')" by simp
    from renderBase_error [OF this] show False by auto
  qed
  ultimately show ?thesis using eq run by simp
qed

theorem WriteBase_stat_error_renders_witness:
  "os_Stat ((mem_sys [''/app/base''] [])\<lparr>os_Stat := \<lambda>p h. Some EACCES\<rparr>)
      (base_WriteOptions.BaseDir example_base_options) [] = Some EACCES
   \<and> \<not> Overwrite example_base_options
   \<and> WriteBase ((mem_sys [''/app/base''] [])\<lparr>os_Stat := \<lambda>p h. Some EACCES\<rparr>)
        example_base example_base_options [] =
      (None,
       [WriteFile ''/app/base/deployment.yaml'' ''kind: Deployment'',
        WriteFile ''/app/base/charts/README.md'' ''readme'',
        WriteFile ''/app/base/deployment.yaml'' ''kind: Deployment'',
        WriteKustomizationToFile
          (kustomization_of [''deployment.yaml'', ''deployment.yaml''] [] [])
          ''/app/base/kustomization.yaml''])"
  using WriteBase_stat_error_renders
    [of "(mem_sys [''/app/base''] [])\<lparr>os_Stat := \<lambda>p h. Some EACCES\<rparr>"
        example_base_options "[]" EACCES example_base]
  unfolding example_base_denied_run
  by (simp add: example_base_options_def)


section \<open>Properties of WriteMidstream\<close>

lemma writePullSecret_None:
  "PullSecret m = None \<Longrightarrow> writePullSecret sys m options h = (Inr [], h)"
  by (simp add: writePullSecret_def)

lemma writePullSecret_Some:
  assumes "PullSecret m \<noteq> None" and "writePullSecret sys m options h = (Inr f, h')"
  shows "f = secretFilename \<and>
         (\<exists>b. h' = h @ [WriteFile (filepath_Join sys [MidstreamDir options, secretFilename]) b])"
  using assms
  by (auto simp: writePullSecret_def Let_def split: option.splits sum.splits)

lemma writePullSecret_calls:
  assumes "writePullSecret sys m options h = (r, h')"
  shows "h' = h \<or> (PullSecret m \<noteq> None \<and>
           (\<exists>b. h' = h @ [WriteFile (filepath_Join sys [MidstreamDir options, secretFilename]) b]))"
  using assms
  by (auto simp: writePullSecret_def Let_def split: option.splits sum.splits)

text \<open>The loop on the patch file issues \<^verbatim>\<open>Write\<close> calls on that file only.\<close>

lemma writeObjects_calls:
  "writeObjects sys secret filename objs h = (r, h') \<Longrightarrow>
     \<exists>cs. h' = h @ cs \<and> (\<forall>c\<in>set cs. is_Write c \<and> target c = filename)"
proof (induction objs arbitrary: h)
  case Nil
  then show ?case by simp
next
  case (Cons obj objs)
  show ?case
  proof (cases "yaml_Marshal sys (obejctWithPullSecret obj secret)")
    case (Inl err)
    with Cons.prems show ?thesis by simp
  next
    case (Inr b)
    let ?sep = "''---'' @ [CHR 0x0A]"
    let ?h1 = "h @ [Write filename ?sep]"
    let ?h2 = "?h1 @ [Write filename b]"
    show ?thesis
    proof (cases "File_Write sys filename ?sep h")
      case (Some err)
      with Cons.prems Inr have "h' = ?h1" by (simp add: Let_def)
      then show ?thesis by auto
    next
      case None
      note w1 = None
      show ?thesis
      proof (cases "File_Write sys filename b ?h1")
        case (Some err)
        with Cons.prems Inr w1 have "h' = h @ [Write filename ?sep, Write filename b]"
          by (simp add: Let_def)
        then show ?thesis by auto
      next
        case None
        with Cons.prems Inr w1 have "writeObjects sys secret filename objs ?h2 = (r, h')"
          by (simp add: Let_def)
        from Cons.IH [OF this] obtain cs where
          "h' = ?h2 @ cs" "\<forall>c\<in>set cs. is_Write c \<and> target c = filename"
          by blast
        then have "h' = h @ ([Write filename ?sep, Write filename b] @ cs)"
          "\<forall>c\<in>set ([Write filename ?sep, Write filename b] @ cs).
              is_Write c \<and> target c = filename"
          by auto
        then show ?thesis by blast
      qed
    qed
  qed
qed

lemma writeObjectsWithPullSecret_empty:
  "DocForPatches m = [] \<Longrightarrow> writeObjectsWithPullSecret sys m options h = (Inr [], h)"
  by (simp add: writeObjectsWithPullSecret_def)

lemma writeObjectsWithPullSecret_calls:
  assumes "writeObjectsWithPullSecret sys m options h = (r, h')"
  shows "\<exists>cs. h' = h @ cs \<and>
           (\<forall>c\<in>set cs. DocForPatches m \<noteq> [] \<and> (is_Create c \<or> is_Write c \<or> is_Close c) \<and>
                 target c = filepath_Join sys [MidstreamDir options, patchesFilename])"
proof (cases "DocForPatches m = []")
  case True
  with assms show ?thesis by (simp add: writeObjectsWithPullSecret_empty)
next
  case False
  let ?f = "filepath_Join sys [MidstreamDir options, patchesFilename]"
  show ?thesis
  proof (cases "os_Create sys ?f h")
    case (Some err)
    with assms False have "h' = h @ [Create ?f]"
      by (simp add: writeObjectsWithPullSecret_def Let_def)
    with False show ?thesis by auto
  next
    case None
    obtain r1 h1 where loop:
      "writeObjects sys (PullSecret m) ?f (DocForPatches m) (h @ [Create ?f]) = (r1, h1)"
      by (cases "writeObjects sys (PullSecret m) ?f (DocForPatches m) (h @ [Create ?f])") auto
    then obtain cs where cs: "h1 = (h @ [Create ?f]) @ cs"
        "\<forall>c\<in>set cs. is_Write c \<and> target c = ?f"
      by (blast dest: writeObjects_calls)
    from assms False None loop have "h' = h1 @ [Close ?f]"
      by (auto simp: writeObjectsWithPullSecret_def Let_def split: option.splits)
    with cs False have "h' = h @ ([Create ?f] @ cs @ [Close ?f])"
      "\<forall>c\<in>set ([Create ?f] @ cs @ [Close ?f]).
          DocForPatches m \<noteq> [] \<and> (is_Create c \<or> is_Write c \<or> is_Close c) \<and> target c = ?f"
      by auto
    then show ?thesis by blast
  qed
qed

lemma writeObjectsWithPullSecret_result:
  assumes "writeObjectsWithPullSecret sys m options h = (Inr f, h')"
  shows "f = (if DocForPatches m = [] then [] else patchesFilename)"
    and "DocForPatches m \<noteq> [] \<Longrightarrow>
           Create (filepath_Join sys [MidstreamDir options, patchesFilename]) \<in> set (issued h h')"
proof -
  show "f = (if DocForPatches m = [] then [] else patchesFilename)"
    using assms
    by (auto simp: writeObjectsWithPullSecret_def Let_def
          split: option.splits prod.splits if_splits)
next
  assume ne: "DocForPatches m \<noteq> []"
  let ?f = "filepath_Join sys [MidstreamDir options, patchesFilename]"
  from assms ne have c: "os_Create sys ?f h = None"
    by (auto simp: writeObjectsWithPullSecret_def Let_def split: option.splits)
  obtain r1 h1 where loop:
    "writeObjects sys (PullSecret m) ?f (DocForPatches m) (h @ [Create ?f]) = (r1, h1)"
    by (cases "writeObjects sys (PullSecret m) ?f (DocForPatches m) (h @ [Create ?f])") auto
  then obtain cs where cs: "h1 = (h @ [Create ?f]) @ cs"
    by (blast dest: writeObjects_calls)
  from assms ne c loop have "h' = h1 @ [Close ?f]"
    by (auto simp: writeObjectsWithPullSecret_def Let_def split: option.splits)
  with cs have "h' = h @ (Create ?f # cs @ [Close ?f])" by simp
  then show "Create ?f \<in> set (issued h h')" by (simp only: issued_append) simp
qed

lemma writeKustomization_success:
  assumes "writeKustomization sys m options h = (None, m', h')"
  shows "\<exists>rel. filepath_Rel sys (MidstreamDir options) (midstream_WriteOptions.BaseDir options)
               = Inr rel
           \<and> m' = m\<lparr>Kustomization := (Kustomization m)\<lparr>Bases := [rel]\<rparr>\<rparr>
           \<and> h' = h @ [WriteKustomizationToFile (Kustomization m')
                          (KustomizationFilename sys options)]"
  using assms
  by (auto simp: writeKustomization_def Let_def split: sum.splits option.splits)

lemma writeKustomization_calls:
  assumes "writeKustomization sys m options h = (r, m', h')"
  shows "h' = h \<or> (\<exists>k. h' = h @ [WriteKustomizationToFile k (KustomizationFilename sys options)])"
  using assms
  by (auto simp: writeKustomization_def Let_def split: sum.splits option.splits)

text \<open>Every call of \<^verbatim>\<open>WriteMidstream\<close>, whatever it returns: the directory, the secret
  file when there is a pull secret, the patch file when there are documents to patch, the
  Kustomization file.\<close>

lemma WriteMidstream_calls:
  assumes "WriteMidstream sys m options h = (r, m', h')"
  shows "\<exists>cs. h' = h @ cs \<and>
     (\<forall>c\<in>set cs.
        c = MkdirAll (MidstreamDir options)
      \<or> (PullSecret m \<noteq> None \<and> is_WriteFile c
            \<and> target c = filepath_Join sys [MidstreamDir options, secretFilename])
      \<or> (DocForPatches m \<noteq> [] \<and> (is_Create c \<or> is_Write c \<or> is_Close c)
            \<and> target c = filepath_Join sys [MidstreamDir options, patchesFilename])
      \<or> (is_WriteKustomizationToFile c \<and> target c = KustomizationFilename sys options))"
    (is "\<exists>cs. h' = h @ cs \<and> ?ok cs")
proof (cases "loadExisting sys options h")
  case (Inl err)
  with assms have "h' = h @ []" by (simp add: WriteMidstream_def)
  then show ?thesis by auto
next
  case (Inr existing)
  note le = Inr
  let ?mk = "MkdirAll (MidstreamDir options)"
  let ?h1 = "h @ [?mk]"
  show ?thesis
  proof (cases "os_MkdirAll sys (MidstreamDir options) h")
    case (Some err)
    with assms le have "h' = h @ [?mk]" by (simp add: WriteMidstream_def Let_def)
    moreover have "?ok [?mk]" by simp
    ultimately show ?thesis by blast
  next
    case None
    obtain rs h2 where ps: "writePullSecret sys m options ?h1 = (rs, h2)"
      by (cases "writePullSecret sys m options ?h1") auto
    from writePullSecret_calls [OF ps] obtain c2 where c2: "h2 = ?h1 @ c2" "?ok c2"
      by (elim disjE conjE exE) (force, force)
    show ?thesis
    proof (cases rs)
      case (Inl err)
      with assms le None ps have "h' = h2" by (simp add: WriteMidstream_def Let_def)
      with c2 have "h' = h @ (?mk # c2)" "?ok (?mk # c2)" by auto
      then show ?thesis by blast
    next
      case (Inr sf)
      note rs = Inr
      let ?m1 = "(if sf \<noteq> [] then m\<lparr>Kustomization := (Kustomization m)
                \<lparr>Resources := Resources (Kustomization m) @ [sf]\<rparr>\<rparr> else m)"
      have m1_doc: "DocForPatches ?m1 = DocForPatches m" by simp
      obtain rp h3 where wp: "writeObjectsWithPullSecret sys ?m1 options h2 = (rp, h3)"
        by (cases "writeObjectsWithPullSecret sys ?m1 options h2") auto
      from writeObjectsWithPullSecret_calls [OF wp] obtain c3 where c3: "h3 = h2 @ c3" "?ok c3"
        unfolding m1_doc by blast
      show ?thesis
      proof (cases rp)
        case (Inl err)
        with assms le None ps rs wp
        have "h' = h3" by (simp add: WriteMidstream_def Let_def)
        with c2 c3 have "h' = h @ (?mk # c2 @ c3)" "?ok (?mk # c2 @ c3)" by auto
        then show ?thesis by blast
      next
        case (Inr pf)
        let ?m3 = "mergeKustomization (if pf \<noteq> [] then ?m1\<lparr>Kustomization := (Kustomization ?m1)
              \<lparr>PatchesStrategicMerge := PatchesStrategicMerge (Kustomization ?m1) @ [pf]\<rparr>\<rparr>
              else ?m1) existing"
        obtain r4 m4 h4 where wk: "writeKustomization sys ?m3 options h3 = (r4, m4, h4)"
          by (cases "writeKustomization sys ?m3 options h3") auto
        from assms le None ps rs wp Inr wk
        have "h' = h4"
          by (auto simp: WriteMidstream_def Let_def split: option.splits)
        moreover from writeKustomization_calls [OF wk] obtain c4 where c4: "h4 = h3 @ c4" "?ok c4"
          by (elim disjE exE) (force, force)
        ultimately have "h' = h @ (?mk # c2 @ c3 @ c4)" "?ok (?mk # c2 @ c3 @ c4)"
          using c2 c3 by auto
        then show ?thesis by blast
      qed
    qed
  qed
qed

lemma WriteMidstream_WriteFile_secret:
  assumes "WriteMidstream sys m options h = (r, m', h')"
    and "list_ex is_WriteFile (issued h h')"
  shows "PullSecret m \<noteq> None"
proof -
  from WriteMidstream_calls [OF assms(1)] obtain cs where cs: "h' = h @ cs"
    "\<forall>c\<in>set cs.
        c = MkdirAll (MidstreamDir options)
      \<or> (PullSecret m \<noteq> None \<and> is_WriteFile c
            \<and> target c = filepath_Join sys [MidstreamDir options, secretFilename])
      \<or> (DocForPatches m \<noteq> [] \<and> (is_Create c \<or> is_Write c \<or> is_Close c)
            \<and> target c = filepath_Join sys [MidstreamDir options, patchesFilename])
      \<or> (is_WriteKustomizationToFile c \<and> target c = KustomizationFilename sys options)"
    by blast
  from assms(2) cs(1) obtain c where c: "c \<in> set cs" "is_WriteFile c"
    by (auto simp: list_ex_iff)
  with cs(2) have "c = MkdirAll (MidstreamDir options)
      \<or> (PullSecret m \<noteq> None \<and> is_WriteFile c
            \<and> target c = filepath_Join sys [MidstreamDir options, secretFilename])
      \<or> (DocForPatches m \<noteq> [] \<and> (is_Create c \<or> is_Write c \<or> is_Close c)
            \<and> target c = filepath_Join sys [MidstreamDir options, patchesFilename])
      \<or> (is_WriteKustomizationToFile c \<and> target c = KustomizationFilename sys options)"
    by blast
  with c(2) show ?thesis by (cases c) auto
qed

lemma WriteMidstream_Create_patches:
  assumes "WriteMidstream sys m options h = (r, m', h')"
    and "list_ex is_Create (issued h h')"
  shows "DocForPatches m \<noteq> []"
proof -
  from WriteMidstream_calls [OF assms(1)] obtain cs where cs: "h' = h @ cs"
    "\<forall>c\<in>set cs.
        c = MkdirAll (MidstreamDir options)
      \<or> (PullSecret m \<noteq> None \<and> is_WriteFile c
            \<and> target c = filepath_Join sys [MidstreamDir options, secretFilename])
      \<or> (DocForPatches m \<noteq> [] \<and> (is_Create c \<or> is_Write c \<or> is_Close c)
            \<and> target c = filepath_Join sys [MidstreamDir options, patchesFilename])
      \<or> (is_WriteKustomizationToFile c \<and> target c = KustomizationFilename sys options)"
    by blast
  from assms(2) cs(1) obtain c where c: "c \<in> set cs" "is_Create c"
    by (auto simp: list_ex_iff)
  with cs(2) have "c = MkdirAll (MidstreamDir options)
      \<or> (PullSecret m \<noteq> None \<and> is_WriteFile c
            \<and> target c = filepath_Join sys [MidstreamDir options, secretFilename])
      \<or> (DocForPatches m \<noteq> [] \<and> (is_Create c \<or> is_Write c \<or> is_Close c)
            \<and> target c = filepath_Join sys [MidstreamDir options, patchesFilename])
      \<or> (is_WriteKustomizationToFile c \<and> target c = KustomizationFilename sys options)"
    by blast
  with c(2) show ?thesis by (cases c) auto
qed

text \<open>A successful \<^verbatim>\<open>WriteMidstream\<close>, step by step: the Kustomization it leaves in the
  composer and writes last is the merge of the existing one with the composer's own, the
  reference to the secret file added when there is a pull secret and the reference to the
  patch file added when there are documents to patch, and with the recomputed base.\<close>

lemma WriteMidstream_success:
  assumes "WriteMidstream sys m options h = (None, m', h')"
  shows "\<exists>existing rel cs.
      loadExisting sys options h = Inr existing
    \<and> filepath_Rel sys (MidstreamDir options) (midstream_WriteOptions.BaseDir options) = Inr rel
    \<and> Kustomization m' =
        (Kustomization (mergeKustomization
           (m\<lparr>Kustomization := (Kustomization m)
              \<lparr>Resources := Resources (Kustomization m)
                  @ (if PullSecret m = None then [] else [secretFilename]),
                PatchesStrategicMerge := PatchesStrategicMerge (Kustomization m)
                  @ (if DocForPatches m = [] then [] else [patchesFilename])\<rparr>\<rparr>)
           existing))\<lparr>Bases := [rel]\<rparr>
    \<and> h' = h @ cs @ [WriteKustomizationToFile (Kustomization m')
                        (KustomizationFilename sys options)]
    \<and> (\<forall>c\<in>set cs. \<not> is_WriteKustomizationToFile c)"
proof -
  from assms obtain existing where le: "loadExisting sys options h = Inr existing"
    by (cases "loadExisting sys options h") (auto simp: WriteMidstream_def)
  let ?mk = "MkdirAll (MidstreamDir options)"
  let ?h1 = "h @ [?mk]"
  from assms le have mk: "os_MkdirAll sys (MidstreamDir options) h = None"
    by (cases "os_MkdirAll sys (MidstreamDir options) h") (auto simp: WriteMidstream_def Let_def)
  obtain rs h2 where ps: "writePullSecret sys m options ?h1 = (rs, h2)"
    by (cases "writePullSecret sys m options ?h1") auto
  from assms le mk ps obtain sf where rs: "rs = Inr sf"
    by (cases rs) (auto simp: WriteMidstream_def Let_def)
  have sf: "sf = (if PullSecret m = None then [] else secretFilename)"
    using ps rs writePullSecret_None [of m sys options ?h1]
      writePullSecret_Some [of m sys options ?h1 sf h2]
    by (cases "PullSecret m = None") auto
  from writePullSecret_calls [OF ps] obtain c2 where c2: "h2 = ?h1 @ c2"
      "\<forall>c\<in>set c2. is_WriteFile c"
    by (elim disjE conjE exE) (force, force)
  let ?m1 = "(if sf \<noteq> [] then m\<lparr>Kustomization := (Kustomization m)
                \<lparr>Resources := Resources (Kustomization m) @ [sf]\<rparr>\<rparr> else m)"
  have m1_doc: "DocForPatches ?m1 = DocForPatches m"
    by simp
  obtain rp h3 where wp: "writeObjectsWithPullSecret sys ?m1 options h2 = (rp, h3)"
    by (cases "writeObjectsWithPullSecret sys ?m1 options h2") auto
  from assms le mk ps rs wp obtain pf where rp: "rp = Inr pf"
    by (cases rp) (auto simp: WriteMidstream_def Let_def)
  from writeObjectsWithPullSecret_result(1) [OF wp [unfolded rp]]
  have pf: "pf = (if DocForPatches m = [] then [] else patchesFilename)"
    by (simp add: m1_doc)
  from writeObjectsWithPullSecret_calls [OF wp] obtain c3 where c3: "h3 = h2 @ c3"
      "\<forall>c\<in>set c3. is_Create c \<or> is_Write c \<or> is_Close c"
    by blast
  let ?m3 = "mergeKustomization (if pf \<noteq> [] then ?m1\<lparr>Kustomization := (Kustomization ?m1)
              \<lparr>PatchesStrategicMerge := PatchesStrategicMerge (Kustomization ?m1) @ [pf]\<rparr>\<rparr>
              else ?m1) existing"
  obtain r4 m4 h4 where wk: "writeKustomization sys ?m3 options h3 = (r4, m4, h4)"
    by (cases "writeKustomization sys ?m3 options h3") auto
  from assms le mk ps rs wp rp wk have fin: "r4 = None" "m' = m4" "h' = h4"
    by (auto simp: WriteMidstream_def Let_def split: option.splits)
  from writeKustomization_success [OF wk [unfolded fin(1)]] obtain rel where
    rel: "filepath_Rel sys (MidstreamDir options) (midstream_WriteOptions.BaseDir options)
            = Inr rel"
    and m4: "m4 = ?m3\<lparr>Kustomization := (Kustomization ?m3)\<lparr>Bases := [rel]\<rparr>\<rparr>"
    and h4: "h4 = h3 @ [WriteKustomizationToFile (Kustomization m4)
                          (KustomizationFilename sys options)]"
    by blast
  have secret_ne: "secretFilename \<noteq> []" and patches_ne: "patchesFilename \<noteq> []"
    by (simp_all add: secretFilename_def patchesFilename_def)
  have m3_eq: "?m3 = mergeKustomization
           (m\<lparr>Kustomization := (Kustomization m)
              \<lparr>Resources := Resources (Kustomization m)
                  @ (if PullSecret m = None then [] else [secretFilename]),
                PatchesStrategicMerge := PatchesStrategicMerge (Kustomization m)
                  @ (if DocForPatches m = [] then [] else [patchesFilename])\<rparr>\<rparr>)
           existing"
    by (simp add: sf pf secret_ne patches_ne)
  let ?cs = "?mk # c2 @ c3"
  have k': "Kustomization m' = (Kustomization ?m3)\<lparr>Bases := [rel]\<rparr>"
    using fin m4 by simp
  have A: "h' = h @ ?cs @ [WriteKustomizationToFile (Kustomization m')
                             (KustomizationFilename sys options)]"
    using fin h4 c2(1) c3(1) by simp
  have B: "\<forall>c\<in>set ?cs. \<not> is_WriteKustomizationToFile c"
  proof
    fix c assume "c \<in> set ?cs"
    with c2(2) c3(2)
    have "is_MkdirAll c \<or> is_WriteFile c \<or> is_Create c \<or> is_Write c \<or> is_Close c"
      by auto
    then show "\<not> is_WriteKustomizationToFile c" by (cases c) auto
  qed
  show ?thesis
    apply (rule exI [of _ existing])
    apply (rule exI [of _ rel])
    apply (rule exI [of _ ?cs])
    using le rel k' [unfolded m3_eq] A B
    apply (intro conjI)
    apply assumption+
    done
qed

lemma example_midstream_run:
  "WriteMidstream example_sys example_midstream example_options [] =
     (None,
      example_midstream\<lparr>Kustomization :=
        \<lparr>APIVersion = ''kustomize.config.k8s.io/v1beta1'',
         Kind = ''Kustomization'',
         Resources = [''custom.yaml'', ''secret.yaml''],
         PatchesStrategicMerge = [''custom-patch.yaml'', ''pullsecrets.yaml''],
         Images = [\<lparr>Name = ''myapp'', NewName = ''registry.local/myapp'', NewTag = ''new'',
                    Digest = []\<rparr>],
         Bases = [''../base'']\<rparr>\<rparr>,
      [MkdirAll ''/app/midstream'',
       WriteFile ''/app/midstream/secret.yaml'' ''kotsadm-replicated-registry: e30='',
       Create ''/app/midstream/pullsecrets.yaml'',
       Write ''/app/midstream/pullsecrets.yaml'' (''---'' @ [CHR 0x0A]),
       Write ''/app/midstream/pullsecrets.yaml'' ''Deployment/myapp'',
       Close ''/app/midstream/pullsecrets.yaml'',
       WriteKustomizationToFile
         \<lparr>APIVersion = ''kustomize.config.k8s.io/v1beta1'',
          Kind = ''Kustomization'',
          Resources = [''custom.yaml'', ''secret.yaml''],
          PatchesStrategicMerge = [''custom-patch.yaml'', ''pullsecrets.yaml''],
          Images = [\<lparr>Name = ''myapp'', NewName = ''registry.local/myapp'', NewTag = ''new'',
                     Digest = []\<rparr>],
          Bases = [''../base'']\<rparr>
         ''/app/midstream/kustomization.yaml''])"
  by (simp add: midstream_defs example_defs mem_sys_simps Let_def split_path_def)

text \<open>The same render by a composer that has no pull secret.\<close>

lemma example_midstream_no_secret_run:
  "WriteMidstream example_sys (example_midstream\<lparr>PullSecret := None\<rparr>) example_options [] =
     (None,
      example_midstream\<lparr>PullSecret := None, Kustomization :=
        \<lparr>APIVersion = ''kustomize.config.k8s.io/v1beta1'',
         Kind = ''Kustomization'',
         Resources = [''custom.yaml''],
         PatchesStrategicMerge = [''custom-patch.yaml'', ''pullsecrets.yaml''],
         Images = [\<lparr>Name = ''myapp'', NewName = ''registry.local/myapp'', NewTag = ''new'',
                    Digest = []\<rparr>],
         Bases = [''../base'']\<rparr>\<rparr>,
      [MkdirAll ''/app/midstream'',
       Create ''/app/midstream/pullsecrets.yaml'',
       Write ''/app/midstream/pullsecrets.yaml'' (''---'' @ [CHR 0x0A]),
       Write ''/app/midstream/pullsecrets.yaml'' ''Deployment/myapp'',
       Close ''/app/midstream/pullsecrets.yaml'',
       WriteKustomizationToFile
         \<lparr>APIVersion = ''kustomize.config.k8s.io/v1beta1'',
          Kind = ''Kustomization'',
          Resources = [''custom.yaml''],
          PatchesStrategicMerge = [''custom-patch.yaml'', ''pullsecrets.yaml''],
          Images = [\<lparr>Name = ''myapp'', NewName = ''registry.local/myapp'', NewTag = ''new'',
                     Digest = []\<rparr>],
          Bases = [''../base'']\<rparr>
         ''/app/midstream/kustomization.yaml''])"
  by (simp add: midstream_defs example_defs mem_sys_simps Let_def split_path_def)


text \<open>
  \<^bold>\<open>C5\<close>. When the \<^verbatim>\<open>os.Stat\<close> of the Kustomization file succeeds and
  \<^verbatim>\<open>ReadKustomizationFromFile\<close> returns an error, \<^verbatim>\<open>WriteMidstream\<close> returns that
  error wrapped as "load existing kustomization", has issued no call (no directory, no
  secret file, no patch file, no Kustomization file) and leaves the composer as it was: it
  does not go on as if there were no existing Kustomization.
\<close>

theorem WriteMidstream_parse_error:
  assumes "os_Stat sys (KustomizationFilename sys options) h = None"
    and "ReadKustomizationFromFile sys (KustomizationFilename sys options) h = Inl err"
  shows "WriteMidstream sys m options h =
           (Some (Wrap err ''load existing kustomization''), m, h)"
  using assms by (simp add: WriteMidstream_def loadExisting_def)

theorem WriteMidstream_parse_error_witness:
  "os_Stat (mem_sys [''/app/midstream'', ''/app/midstream/kustomization.yaml''] [])
      (KustomizationFilename
         (mem_sys [''/app/midstream'', ''/app/midstream/kustomization.yaml''] [])
         example_options) [] = None
   \<and> ReadKustomizationFromFile
        (mem_sys [''/app/midstream'', ''/app/midstream/kustomization.yaml''] [])
        (KustomizationFilename
           (mem_sys [''/app/midstream'', ''/app/midstream/kustomization.yaml''] [])
           example_options) [] = Inl (External ''cannot unmarshal'')
   \<and> WriteMidstream (mem_sys [''/app/midstream'', ''/app/midstream/kustomization.yaml''] [])
        example_midstream example_options [] =
      (Some (Wrap (External ''cannot unmarshal'') ''load existing kustomization''),
       example_midstream, [])"
  using WriteMidstream_parse_error
    [of "mem_sys [''/app/midstream'', ''/app/midstream/kustomization.yaml''] []"
        example_options "[]" "External ''cannot unmarshal''" example_midstream]
  by (simp add: KustomizationFilename_def mem_sys_simps example_options_def)

text \<open>
  \<^bold>\<open>C6\<close>. When the composer has no pull secret, \<^verbatim>\<open>WriteMidstream\<close> issues no
  \<^verbatim>\<open>WriteFile\<close> call, whatever it returns (\<^verbatim>\<open>ioutil.WriteFile\<close> is what writes
  \<^verbatim>\<open>secret.yaml\<close>, and nothing else in \<^verbatim>\<open>WriteMidstream\<close> calls it): every call
  it issues acts on the directory, on the patch file or on the Kustomization file. When it
  succeeds the resources of the final Kustomization are the merge of the composer's own
  resources with the existing ones: \<^verbatim>\<open>WriteMidstream\<close> has added no entry to them.
\<close>

theorem WriteMidstream_no_secret:
  assumes "PullSecret m = None" and "WriteMidstream sys m options h = (r, m', h')"
  shows "\<not> list_ex is_WriteFile (issued h h')
         \<and> (\<forall>c\<in>set (issued h h').
                target c = MidstreamDir options
              \<or> target c = filepath_Join sys [MidstreamDir options, patchesFilename]
              \<or> target c = KustomizationFilename sys options)
         \<and> (r = None \<longrightarrow>
              (\<exists>existing. loadExisting sys options h = Inr existing \<and>
                 Resources (Kustomization m') =
                 Resources (Kustomization (mergeKustomization m existing))))"
proof (intro conjI)
  show "\<not> list_ex is_WriteFile (issued h h')"
    using WriteMidstream_WriteFile_secret [OF assms(2)] assms(1) by blast
next
  from WriteMidstream_calls [OF assms(2)] obtain cs where cs: "h' = h @ cs"
    "\<forall>c\<in>set cs.
        c = MkdirAll (MidstreamDir options)
      \<or> (PullSecret m \<noteq> None \<and> is_WriteFile c
            \<and> target c = filepath_Join sys [MidstreamDir options, secretFilename])
      \<or> (DocForPatches m \<noteq> [] \<and> (is_Create c \<or> is_Write c \<or> is_Close c)
            \<and> target c = filepath_Join sys [MidstreamDir options, patchesFilename])
      \<or> (is_WriteKustomizationToFile c \<and> target c = KustomizationFilename sys options)"
    by blast
  show "\<forall>c\<in>set (issued h h').
                target c = MidstreamDir options
              \<or> target c = filepath_Join sys [MidstreamDir options, patchesFilename]
              \<or> target c = KustomizationFilename sys options"
  proof
    fix c assume "c \<in> set (issued h h')"
    with cs(1) have "c \<in> set cs" by simp
    with cs(2) have "c = MkdirAll (MidstreamDir options)
      \<or> (PullSecret m \<noteq> None \<and> is_WriteFile c
            \<and> target c = filepath_Join sys [MidstreamDir options, secretFilename])
      \<or> (DocForPatches m \<noteq> [] \<and> (is_Create c \<or> is_Write c \<or> is_Close c)
            \<and> target c = filepath_Join sys [MidstreamDir options, patchesFilename])
      \<or> (is_WriteKustomizationToFile c \<and> target c = KustomizationFilename sys options)"
      by blast
    with assms(1) show "target c = MidstreamDir options
              \<or> target c = filepath_Join sys [MidstreamDir options, patchesFilename]
              \<or> target c = KustomizationFilename sys options"
      by auto
  qed
next
  show "r = None \<longrightarrow>
            (\<exists>existing. loadExisting sys options h = Inr existing \<and>
               Resources (Kustomization m') =
               Resources (Kustomization (mergeKustomization m existing)))"
  proof
    assume "r = None"
    with assms(2) have "WriteMidstream sys m options h = (None, m', h')" by simp
    from WriteMidstream_success [OF this] obtain existing rel where
      le: "loadExisting sys options h = Inr existing" and
      k: "Kustomization m' =
        (Kustomization (mergeKustomization
           (m\<lparr>Kustomization := (Kustomization m)
              \<lparr>Resources := Resources (Kustomization m)
                  @ (if PullSecret m = None then [] else [secretFilename]),
                PatchesStrategicMerge := PatchesStrategicMerge (Kustomization m)
                  @ (if DocForPatches m = [] then [] else [patchesFilename])\<rparr>\<rparr>)
           existing))\<lparr>Bases := [rel]\<rparr>"
      by blast
    have "Resources (Kustomization (mergeKustomization
           (m\<lparr>Kustomization := (Kustomization m)
              \<lparr>Resources := Resources (Kustomization m)
                  @ (if PullSecret m = None then [] else [secretFilename]),
                PatchesStrategicMerge := PatchesStrategicMerge (Kustomization m)
                  @ (if DocForPatches m = [] then [] else [patchesFilename])\<rparr>\<rparr>)
           existing)) = Resources (Kustomization (mergeKustomization m existing))"
      by (rule Resources_merge_cong) (simp add: assms(1))
    with k have "Resources (Kustomization m') =
        Resources (Kustomization (mergeKustomization m existing))"
      by simp
    with le show "\<exists>existing. loadExisting sys options h = Inr existing \<and>
               Resources (Kustomization m') =
               Resources (Kustomization (mergeKustomization m existing))"
      by blast
  qed
qed

theorem WriteMidstream_no_secret_witness:
  "PullSecret (example_midstream\<lparr>PullSecret := None\<rparr>) = None
   \<and> fst (WriteMidstream example_sys (example_midstream\<lparr>PullSecret := None\<rparr>)
            example_options []) = None
   \<and> \<not> list_ex is_WriteFile
         (issued [] (snd (snd (WriteMidstream example_sys
            (example_midstream\<lparr>PullSecret := None\<rparr>) example_options []))))
   \<and> map target (issued [] (snd (snd (WriteMidstream example_sys
         (example_midstream\<lparr>PullSecret := None\<rparr>) example_options [])))) =
       [''/app/midstream'', ''/app/midstream/pullsecrets.yaml'',
        ''/app/midstream/pullsecrets.yaml'', ''/app/midstream/pullsecrets.yaml'',
        ''/app/midstream/pullsecrets.yaml'', ''/app/midstream/kustomization.yaml'']
   \<and> Resources (Kustomization (fst (snd (WriteMidstream example_sys
         (example_midstream\<lparr>PullSecret := None\<rparr>) example_options [])))) = [''custom.yaml'']"
  using WriteMidstream_no_secret
    [of "example_midstream\<lparr>PullSecret := None\<rparr>" example_sys example_options "[]"
        "fst (WriteMidstream example_sys (example_midstream\<lparr>PullSecret := None\<rparr>)
            example_options [])"
        "fst (snd (WriteMidstream example_sys (example_midstream\<lparr>PullSecret := None\<rparr>)
            example_options []))"
        "snd (snd (WriteMidstream example_sys (example_midstream\<lparr>PullSecret := None\<rparr>)
            example_options []))"]
  unfolding example_midstream_no_secret_run
  by (simp add: issued_def)

text \<open>
  \<^bold>\<open>C7\<close>. A successful \<^verbatim>\<open>WriteMidstream\<close> ends with the write of the Kustomization it
  leaves in the composer. If it has issued a \<^verbatim>\<open>WriteFile\<close> call (the secret file), that
  Kustomization lists \<^verbatim>\<open>secret.yaml\<close> in its resources; if it has issued a \<^verbatim>\<open>Create\<close>
  call (the patch file), it lists \<^verbatim>\<open>pullsecrets.yaml\<close> in its strategic-merge patches.
  Both hold whether there was an existing Kustomization to merge with or not, and whatever
  it held.
\<close>

theorem WriteMidstream_references_written_files:
  assumes "WriteMidstream sys m options h = (None, m', h')"
  shows "last h' = WriteKustomizationToFile (Kustomization m') (KustomizationFilename sys options)
         \<and> (list_ex is_WriteFile (issued h h') \<longrightarrow>
              secretFilename \<in> set (Resources (Kustomization m')))
         \<and> (list_ex is_Create (issued h h') \<longrightarrow>
              patchesFilename \<in> set (PatchesStrategicMerge (Kustomization m')))"
proof -
  let ?m0 = "m\<lparr>Kustomization := (Kustomization m)
              \<lparr>Resources := Resources (Kustomization m)
                  @ (if PullSecret m = None then [] else [secretFilename]),
                PatchesStrategicMerge := PatchesStrategicMerge (Kustomization m)
                  @ (if DocForPatches m = [] then [] else [patchesFilename])\<rparr>\<rparr>"
  from WriteMidstream_success [OF assms] obtain existing rel cs where
    k: "Kustomization m' = (Kustomization (mergeKustomization ?m0 existing))\<lparr>Bases := [rel]\<rparr>"
    and h': "h' = h @ cs @ [WriteKustomizationToFile (Kustomization m')
                              (KustomizationFilename sys options)]"
    by blast
  have last: "last h' =
      WriteKustomizationToFile (Kustomization m') (KustomizationFilename sys options)"
    using h' by simp
  have secret: "secretFilename \<in> set (Resources (Kustomization m'))"
    if "list_ex is_WriteFile (issued h h')"
  proof -
    from WriteMidstream_WriteFile_secret [OF assms that] have "PullSecret m \<noteq> None" .
    then have "secretFilename \<in> set (Resources (Kustomization ?m0))" by auto
    then have "secretFilename \<in> set (Resources (Kustomization (mergeKustomization ?m0 existing)))"
      by (rule Resources_merge_keeps)
    with k show ?thesis by simp
  qed
  have patches: "patchesFilename \<in> set (PatchesStrategicMerge (Kustomization m'))"
    if "list_ex is_Create (issued h h')"
  proof -
    from WriteMidstream_Create_patches [OF assms that] have "DocForPatches m \<noteq> []" .
    then have "patchesFilename \<in> set (PatchesStrategicMerge (Kustomization ?m0))" by auto
    then have "patchesFilename
        \<in> set (PatchesStrategicMerge (Kustomization (mergeKustomization ?m0 existing)))"
      by (rule Patches_merge_keeps)
    with k show ?thesis by simp
  qed
  from last secret patches show ?thesis by blast
qed

theorem WriteMidstream_references_written_files_witness:
  "fst (WriteMidstream example_sys example_midstream example_options []) = None
   \<and> list_ex is_WriteFile
       (issued [] (snd (snd (WriteMidstream example_sys example_midstream example_options []))))
   \<and> list_ex is_Create
       (issued [] (snd (snd (WriteMidstream example_sys example_midstream example_options []))))
   \<and> Resources (Kustomization
        (fst (snd (WriteMidstream example_sys example_midstream example_options []))))
      = [''custom.yaml'', ''secret.yaml'']
   \<and> secretFilename \<in> set (Resources (Kustomization
        (fst (snd (WriteMidstream example_sys example_midstream example_options [])))))
   \<and> PatchesStrategicMerge (Kustomization
        (fst (snd (WriteMidstream example_sys example_midstream example_options []))))
      = [''custom-patch.yaml'', ''pullsecrets.yaml'']
   \<and> patchesFilename \<in> set (PatchesStrategicMerge (Kustomization
        (fst (snd (WriteMidstream example_sys example_midstream example_options [])))))"
  using WriteMidstream_references_written_files
    [of example_sys example_midstream example_options "[]"
        "fst (snd (WriteMidstream example_sys example_midstream example_options []))"
        "snd (snd (WriteMidstream example_sys example_midstream example_options []))"]
  unfolding example_midstream_run
  by (simp add: issued_def)

text \<open>
  \<^bold>\<open>C8\<close>. A successful \<^verbatim>\<open>WriteMidstream\<close> ends with the write of a Kustomization
  whose \<^verbatim>\<open>Bases\<close> is the one-element list of
  \<^verbatim>\<open>filepath.Rel(MidstreamDir, BaseDir)\<close>, whatever the \<^verbatim>\<open>Bases\<close> of the composer
  and of the existing Kustomization were.
\<close>

theorem WriteMidstream_bases:
  assumes "WriteMidstream sys m options h = (None, m', h')"
  shows "\<exists>rel. filepath_Rel sys (MidstreamDir options) (midstream_WriteOptions.BaseDir options)
               = Inr rel
           \<and> Bases (Kustomization m') = [rel]
           \<and> last h' = WriteKustomizationToFile (Kustomization m')
                         (KustomizationFilename sys options)"
proof -
  from WriteMidstream_success [OF assms] obtain existing rel cs where
    "filepath_Rel sys (MidstreamDir options) (midstream_WriteOptions.BaseDir options) = Inr rel"
    "Kustomization m' =
        (Kustomization (mergeKustomization
           (m\<lparr>Kustomization := (Kustomization m)
              \<lparr>Resources := Resources (Kustomization m)
                  @ (if PullSecret m = None then [] else [secretFilename]),
                PatchesStrategicMerge := PatchesStrategicMerge (Kustomization m)
                  @ (if DocForPatches m = [] then [] else [patchesFilename])\<rparr>\<rparr>)
           existing))\<lparr>Bases := [rel]\<rparr>"
    "h' = h @ cs @ [WriteKustomizationToFile (Kustomization m')
                      (KustomizationFilename sys options)]"
    by blast
  then show ?thesis by simp
qed

theorem WriteMidstream_bases_witness:
  "fst (WriteMidstream example_sys example_midstream example_options []) = None
   \<and> Bases example_existing = [''../elsewhere'']
   \<and> filepath_Rel example_sys (MidstreamDir example_options)
        (midstream_WriteOptions.BaseDir example_options) = Inr ''../base''
   \<and> Bases (Kustomization
        (fst (snd (WriteMidstream example_sys example_midstream example_options []))))
      = [''../base'']"
  using WriteMidstream_bases
    [of example_sys example_midstream example_options "[]"
        "fst (snd (WriteMidstream example_sys example_midstream example_options []))"
        "snd (snd (WriteMidstream example_sys example_midstream example_options []))"]
  unfolding example_midstream_run
  by (simp add: example_defs mem_sys_simps split_path_def)

end
